theory Spec2Isabelle
  imports Complex_Main "HOL-Library.AList"
begin

section \<open>Data model of \<open>batch_analyzer.py\<close>\<close>

text \<open>
  A landmark is the tuple \<open>(x, y, visibility)\<close> that \<open>detect_pose_in_frame\<close> stores for
  a body part. The landmark dictionary of one frame is kept as an association list read
  through \<open>map_of\<close>; a frame in which no pose was detected is Python's \<open>None\<close>.
  A coordinate is a real number. The repetition counter compares computed heights with
  thresholds, and the outcome of such a test at a threshold depends on how Python rounds:
  its arithmetic is modelled in IEEE double precision below. In the other functions the
  arithmetic is that of the reals; no result about them depends on rounding.
\<close>

type_synonym landmark = "real \<times> real \<times> real"

type_synonym landmarks = "(string \<times> landmark) list"

type_synonym pose = "landmarks option"

definition lm_x :: "landmark \<Rightarrow> real" where
  "lm_x l = fst l"

definition lm_y :: "landmark \<Rightarrow> real" where
  "lm_y l = fst (snd l)"

text \<open>
  Python's \<open>not pose\<close> is true for \<open>None\<close> and for the empty dictionary; the functions
  below test both cases where the source writes \<open>if not pose\<close>.
\<close>

text \<open>
  What a Python function hands back where a string is expected: a string, or \<open>None\<close>
  when control reaches the end of the body without a \<open>return\<close>.
\<close>

datatype py_value = Str string | PyNone

datatype py_error = KeyError | IndexError

section \<open>Exercise classifier\<close>

text \<open>
  The body of the \<open>try\<close> block of \<open>classify_exercise_from_pose\<close>: \<open>None\<close> stands for a
  raised \<open>KeyError\<close>, \<open>Some v\<close> for the value the block leaves the function with. The
  \<open>elif\<close> branch that tests the wrist has an inner \<open>if\<close> without \<open>else\<close>, so when the
  wrist is not level with the shoulders no \<open>return\<close> is executed.
\<close>

definition classify_body :: "landmarks \<Rightarrow> py_value option" where
  "classify_body d =
     (case map_of d ''left_shoulder'' of None \<Rightarrow> None | Some left_shoulder \<Rightarrow>
     (case map_of d ''right_shoulder'' of None \<Rightarrow> None | Some right_shoulder \<Rightarrow>
     (case map_of d ''left_hip'' of None \<Rightarrow> None | Some left_hip \<Rightarrow>
     (case map_of d ''right_hip'' of None \<Rightarrow> None | Some right_hip \<Rightarrow>
     (case map_of d ''left_knee'' of None \<Rightarrow> None | Some left_knee \<Rightarrow>
     (case map_of d ''right_knee'' of None \<Rightarrow> None | Some right_knee \<Rightarrow>
        (let shoulder_y = (lm_y left_shoulder + lm_y right_shoulder) / 2;
             hip_y = (lm_y left_hip + lm_y right_hip) / 2;
             knee_y = (lm_y left_knee + lm_y right_knee) / 2
         in if hip_y > shoulder_y + 0.15 \<and> knee_y > hip_y - 0.1 then Some (Str ''squat'')
            else if \<bar>shoulder_y - hip_y\<bar> < 0.2 \<and> map_of d ''left_wrist'' \<noteq> None then
              (case map_of d ''left_wrist'' of None \<Rightarrow> None
               | Some left_wrist \<Rightarrow>
                   (if \<bar>lm_y left_wrist - shoulder_y\<bar> < 0.15 then Some (Str ''pushup'')
                    else Some PyNone))
            else if \<bar>shoulder_y - hip_y\<bar> < 0.15 then Some (Str ''plank'')
            else Some (Str ''standing''))))))))"

definition classify_exercise_from_pose :: "pose \<Rightarrow> py_value" where
  "classify_exercise_from_pose p =
     (case p of None \<Rightarrow> Str ''unknown''
      | Some d \<Rightarrow>
          (if d = [] then Str ''unknown''
           else (case classify_body d of None \<Rightarrow> Str ''unknown'' | Some v \<Rightarrow> v)))"

text \<open>The closed label set of the specification.\<close>

definition exercise_labels :: "py_value set" where
  "exercise_labels = {Str ''squat'', Str ''pushup'', Str ''plank'', Str ''standing'',
     Str ''general_exercise'', Str ''unknown''}"

section \<open>Double-precision arithmetic\<close>

text \<open>
  A Python float is an IEEE 754 binary64 number, and \<open>+\<close>, \<open>-\<close> and \<open>/\<close> return the
  exact result rounded to the nearest such number, ties to the even significand.
  \<open>to_double\<close> is that rounding: a double in the binade of exponent \<open>e\<close> is an integer
  multiple of \<open>2 ^ (e - 52)\<close>, and below \<open>2 ^ -1022\<close> the spacing stays that of the
  subnormal numbers. Results of magnitude \<open>2 ^ 1024\<close> and more, which Python turns into
  \<open>inf\<close>, are outside the model, as are \<open>nan\<close> coordinates. A decimal literal such as
  \<open>0.15\<close> denotes \<open>to_double 0.15\<close>.
\<close>

definition round_even :: "real \<Rightarrow> int" where
  "round_even y =
     (let f = \<lfloor>y\<rfloor>
      in if y - of_int f < 1 / 2 then f
         else if 1 / 2 < y - of_int f then f + 1
         else if even f then f else f + 1)"

definition double_exponent :: "real \<Rightarrow> int" where
  "double_exponent x = max \<lfloor>log 2 \<bar>x\<bar>\<rfloor> (- 1022)"

definition to_double :: "real \<Rightarrow> real" where
  "to_double x =
     (if x = 0 then 0
      else of_int (round_even (x / 2 powr (of_int (double_exponent x) - 52)))
             * 2 powr (of_int (double_exponent x) - 52))"

definition fl_add :: "real \<Rightarrow> real \<Rightarrow> real" where
  "fl_add x y = to_double (x + y)"

definition fl_sub :: "real \<Rightarrow> real \<Rightarrow> real" where
  "fl_sub x y = to_double (x - y)"

definition fl_div :: "real \<Rightarrow> real \<Rightarrow> real" where
  "fl_div x y = to_double (x / y)"

section \<open>Repetition counter\<close>

definition squat_heights :: "landmarks \<Rightarrow> (real \<times> real) option" where
  "squat_heights d =
     (case map_of d ''left_hip'' of None \<Rightarrow> None | Some left_hip \<Rightarrow>
     (case map_of d ''right_hip'' of None \<Rightarrow> None | Some right_hip \<Rightarrow>
     (case map_of d ''left_knee'' of None \<Rightarrow> None | Some left_knee \<Rightarrow>
     (case map_of d ''right_knee'' of None \<Rightarrow> None | Some right_knee \<Rightarrow>
        Some (fl_div (fl_add (lm_y left_hip) (lm_y right_hip)) 2,
              fl_div (fl_add (lm_y left_knee) (lm_y right_knee)) 2)))))"

definition pushup_heights :: "landmarks \<Rightarrow> (real \<times> real) option" where
  "pushup_heights d =
     (case map_of d ''left_shoulder'' of None \<Rightarrow> None | Some left_shoulder \<Rightarrow>
     (case map_of d ''left_wrist'' of None \<Rightarrow> None | Some left_wrist \<Rightarrow>
        Some (lm_y left_shoulder, lm_y left_wrist)))"

text \<open>
  One iteration of the loop of \<open>count_reps_in_sequence\<close> on the state
  \<open>(rep_count, in_rep)\<close>. A falsy pose and a \<open>KeyError\<close> both \<open>continue\<close>. The means,
  the differences and the thresholds are computed in double precision; the comparisons
  themselves are exact.
\<close>

definition rep_step :: "string \<Rightarrow> int \<times> bool \<Rightarrow> pose \<Rightarrow> int \<times> bool" where
  "rep_step exercise_type st pose =
     (let rep_count = fst st; in_rep = snd st
      in case pose of None \<Rightarrow> st
         | Some d \<Rightarrow>
            (if d = [] then st
             else if exercise_type = ''squat'' then
               (case squat_heights d of None \<Rightarrow> st
                | Some (hip_y, knee_y) \<Rightarrow>
                   (if hip_y > fl_sub knee_y (to_double 0.05) \<and> \<not> in_rep then (rep_count, True)
                    else if hip_y < fl_sub knee_y (to_double 0.15) \<and> in_rep
                      then (rep_count + 1, False)
                    else st))
             else if exercise_type = ''pushup'' then
               (case pushup_heights d of None \<Rightarrow> st
                | Some (shoulder_y, wrist_y) \<Rightarrow>
                   (if \<bar>fl_sub shoulder_y wrist_y\<bar> < to_double 0.1 \<and> \<not> in_rep
                      then (rep_count, True)
                    else if \<bar>fl_sub shoulder_y wrist_y\<bar> > to_double 0.2 \<and> in_rep
                      then (rep_count + 1, False)
                    else st))
             else st))"

definition count_reps_in_sequence :: "pose list \<Rightarrow> string \<Rightarrow> int" where
  "count_reps_in_sequence poses exercise_type =
     (if exercise_type = ''unknown'' \<or> poses = [] then 0
      else fst (foldl (rep_step exercise_type) (0, False) poses))"

section \<open>Form consistency, stability and fatigue\<close>

definition mean :: "real list \<Rightarrow> real" where
  "mean xs = sum_list xs / real (length xs)"

definition shoulder_width :: "landmarks \<Rightarrow> real option" where
  "shoulder_width d =
     (case map_of d ''left_shoulder'' of None \<Rightarrow> None | Some left_shoulder \<Rightarrow>
     (case map_of d ''right_shoulder'' of None \<Rightarrow> None | Some right_shoulder \<Rightarrow>
        Some \<bar>lm_x left_shoulder - lm_x right_shoulder\<bar>))"

text \<open>
  The body of the loop of \<open>calculate_form_consistency\<close> for the frames \<open>poses[i]\<close> and
  \<open>poses[i-1]\<close>: \<open>None\<close> when nothing is appended (a falsy frame or a \<open>KeyError\<close>).
\<close>

definition pair_consistency :: "pose \<Rightarrow> pose \<Rightarrow> real option" where
  "pair_consistency cur prev =
     (case cur of None \<Rightarrow> None | Some c \<Rightarrow>
     (case prev of None \<Rightarrow> None | Some p \<Rightarrow>
        (if c = [] \<or> p = [] then None
         else (case shoulder_width c of None \<Rightarrow> None | Some curr_shoulder_width \<Rightarrow>
              (case shoulder_width p of None \<Rightarrow> None | Some prev_shoulder_width \<Rightarrow>
                 Some (max 0 (1 - \<bar>curr_shoulder_width - prev_shoulder_width\<bar>)))))))"

definition calculate_form_consistency :: "pose list \<Rightarrow> string \<Rightarrow> real" where
  "calculate_form_consistency poses exercise_type =
     (if poses = [] \<or> exercise_type = ''unknown'' then 0
      else
        (let consistencies =
               List.map_filter (\<lambda>i. pair_consistency (poses ! i) (poses ! (i - 1)))
                 [1..<length poses]
         in if consistencies \<noteq> [] then mean consistencies else 0))"

definition nose_movement :: "pose \<Rightarrow> pose \<Rightarrow> real option" where
  "nose_movement cur prev =
     (case cur of None \<Rightarrow> None | Some c \<Rightarrow>
     (case prev of None \<Rightarrow> None | Some p \<Rightarrow>
        (if c = [] \<or> p = [] then None
         else (case map_of c ''nose'' of None \<Rightarrow> None | Some cn \<Rightarrow>
              (case map_of p ''nose'' of None \<Rightarrow> None | Some pn \<Rightarrow>
                 Some (sqrt ((lm_x cn - lm_x pn)\<^sup>2 + (lm_y cn - lm_y pn)\<^sup>2)))))))"

definition calculate_pose_stability :: "pose list \<Rightarrow> real" where
  "calculate_pose_stability poses =
     (if length poses < 2 then 1
      else
        (let movements =
               List.map_filter (\<lambda>i. nose_movement (poses ! i) (poses ! (i - 1)))
                 [1..<length poses];
             avg_movement = (if movements \<noteq> [] then mean movements else 0)
         in max 0 (1 - avg_movement * 10)))"

text \<open>
  Python's \<open>xs[s:]\<close>; a negative \<open>s\<close> counts from the end and is clipped at the start of
  the list.
\<close>

definition slice_from :: "'a list \<Rightarrow> int \<Rightarrow> 'a list" where
  "slice_from xs s =
     (if s < 0 then drop (nat (max 0 (int (length xs) + s))) xs else drop (nat s) xs)"

text \<open>
  The dictionary returned by \<open>detect_fatigue_indicators\<close>. The early return carries no
  consistency values.
\<close>

record fatigue_result =
  fatigue_score :: real
  indicators :: "string list"
  early_consistency :: "real option"
  late_consistency :: "real option"

definition detect_fatigue_indicators :: "pose list \<Rightarrow> string \<Rightarrow> fatigue_result" where
  "detect_fatigue_indicators poses exercise_type =
     (if length poses < 10 then
        \<lparr>fatigue_score = 0, indicators = [], early_consistency = None, late_consistency = None\<rparr>
      else
        (let early_poses = take (length poses div 3) poses;
             late_poses = slice_from poses ((- int (length poses)) div 3);
             early_c = calculate_form_consistency early_poses exercise_type;
             late_c = calculate_form_consistency late_poses exercise_type;
             degraded = (late_c < early_c - 0.15);
             inds1 = (if degraded then [''Form degradation detected''] else []);
             score1 = (if degraded then 0 + 0.3 else 0);
             unstable = (length late_poses > 5 \<and>
               calculate_pose_stability late_poses < calculate_pose_stability early_poses - 0.1);
             inds2 = (if unstable then inds1 @ [''Increased movement instability''] else inds1);
             score2 = (if unstable then score1 + 0.2 else score1)
         in \<lparr>fatigue_score = min score2 1, indicators = inds2,
              early_consistency = Some early_c, late_consistency = Some late_c\<rparr>))"

section \<open>Segment builder\<close>

record segment =
  exercise :: string
  start_time :: real
  end_time :: real
  duration :: real
  poses_of :: "pose list"
  frame_count :: nat

text \<open>The local variables of \<open>segment_workout_into_exercises\<close>.\<close>

record seg_state =
  segments :: "segment list"
  current_exercise :: py_value
  segment_start :: nat
  segment_poses :: "pose list"

text \<open>Python's \<open>xs[i]\<close> on a list, raising \<open>IndexError\<close> out of range.\<close>

definition py_index :: "'a list \<Rightarrow> int \<Rightarrow> py_error + 'a" where
  "py_index xs i =
     (if 0 \<le> i \<and> i < int (length xs) then Inr (xs ! nat i)
      else if i < 0 \<and> - int (length xs) \<le> i then Inr (xs ! nat (int (length xs) + i))
      else Inl IndexError)"

text \<open>
  The \<open>if current_exercise and len(segment_poses) > 5\<close> block inside the loop, at frame
  \<open>i\<close>: the segment list after it, or the \<open>IndexError\<close> raised while reading
  \<open>timestamps\<close>.
\<close>

definition save_previous :: "real list \<Rightarrow> nat \<Rightarrow> seg_state \<Rightarrow> py_error + segment list" where
  "save_previous timestamps i st =
     (case current_exercise st of PyNone \<Rightarrow> Inr (segments st)
      | Str name \<Rightarrow>
         (if name \<noteq> [] \<and> length (segment_poses st) > 5 then
            (case py_index timestamps (int (segment_start st)) of Inl e \<Rightarrow> Inl e
             | Inr t0 \<Rightarrow>
                (case (if i > 0 then py_index timestamps (int i - 1)
                       else py_index timestamps (int (segment_start st))) of Inl e \<Rightarrow> Inl e
                 | Inr t1 \<Rightarrow>
                     Inr (segments st @
                       [\<lparr>exercise = name, start_time = t0, end_time = t1,
                         duration = (if i > 0 then t1 - t0 else 0),
                         poses_of = segment_poses st,
                         frame_count = length (segment_poses st)\<rparr>])))
          else Inr (segments st)))"

definition segment_step :: "real list \<Rightarrow> nat \<Rightarrow> pose \<Rightarrow> seg_state \<Rightarrow> py_error + seg_state" where
  "segment_step timestamps i pose st =
     (let ex = classify_exercise_from_pose pose
      in if ex \<noteq> current_exercise st then
           (case save_previous timestamps i st of Inl e \<Rightarrow> Inl e
            | Inr segs \<Rightarrow>
                Inr \<lparr>segments = segs, current_exercise = ex, segment_start = i,
                     segment_poses = [pose]\<rparr>)
         else Inr (st\<lparr>segment_poses := segment_poses st @ [pose]\<rparr>))"

fun segment_loop :: "real list \<Rightarrow> nat \<Rightarrow> pose list \<Rightarrow> seg_state \<Rightarrow> py_error + seg_state" where
  "segment_loop timestamps i [] st = Inr st"
| "segment_loop timestamps i (pose # rest) st =
     (case segment_step timestamps i pose st of Inl e \<Rightarrow> Inl e
      | Inr st' \<Rightarrow> segment_loop timestamps (Suc i) rest st')"

definition add_final :: "real list \<Rightarrow> seg_state \<Rightarrow> py_error + segment list" where
  "add_final timestamps st =
     (case current_exercise st of PyNone \<Rightarrow> Inr (segments st)
      | Str name \<Rightarrow>
         (if name \<noteq> [] \<and> length (segment_poses st) > 5 then
            (case py_index timestamps (int (segment_start st)) of Inl e \<Rightarrow> Inl e
             | Inr t0 \<Rightarrow>
                (case py_index timestamps (- 1) of Inl e \<Rightarrow> Inl e
                 | Inr t1 \<Rightarrow>
                     Inr (segments st @
                       [\<lparr>exercise = name, start_time = t0, end_time = t1,
                         duration = t1 - t0,
                         poses_of = segment_poses st,
                         frame_count = length (segment_poses st)\<rparr>])))
          else Inr (segments st)))"

definition segment_workout_into_exercises :: "pose list \<Rightarrow> real list \<Rightarrow> py_error + segment list" where
  "segment_workout_into_exercises poses timestamps =
     (case segment_loop timestamps 0 poses
             \<lparr>segments = [], current_exercise = PyNone, segment_start = 0, segment_poses = []\<rparr> of
        Inl e \<Rightarrow> Inl e
      | Inr st \<Rightarrow> add_final timestamps st)"

section \<open>Session analysis\<close>

text \<open>
  \<open>analyze_workout_session\<close> from the point where the frames have been extracted: its
  input here is the result of \<open>detect_pose_in_frame\<close> on each extracted frame (one entry
  per frame), with the duration and the frame count that \<open>extract_frames_from_video\<close>
  reports. Video decoding and pose estimation themselves are outside the model.
\<close>

record analysis =
  an_exercise :: string
  an_duration :: real
  an_start_time :: real
  an_end_time :: real
  reps_counted :: int
  fatigue_analysis :: fatigue_result
  an_frame_count :: nat

record summary =
  total_duration :: real
  total_exercise_time :: real
  rest_time :: real
  total_reps :: int
  exercises_performed :: "string list"
  exercise_breakdown :: "(string \<times> int) list"

record stats =
  total_frames :: nat
  analyzed_frames :: nat
  pose_detection_rate :: real

record report =
  session_summary :: summary
  detailed_analysis :: "analysis list"
  video_stats :: stats

text \<open>The function returns either a dictionary with the single key \<open>error\<close> or a report.\<close>

datatype session_result = ErrorResult string | Report report

definition analyze_segment :: "segment \<Rightarrow> analysis" where
  "analyze_segment seg =
     \<lparr>an_exercise = exercise seg, an_duration = duration seg,
      an_start_time = start_time seg, an_end_time = end_time seg,
      reps_counted = count_reps_in_sequence (poses_of seg) (exercise seg),
      fatigue_analysis = detect_fatigue_indicators (poses_of seg) (exercise seg),
      an_frame_count = frame_count seg\<rparr>"

text \<open>\<open>exercise_counts[exercise] = exercise_counts.get(exercise, 0) + reps\<close>\<close>

definition count_exercise :: "(string \<times> int) list \<Rightarrow> analysis \<Rightarrow> (string \<times> int) list" where
  "count_exercise exercise_counts a =
     AList.update (an_exercise a)
       ((case map_of exercise_counts (an_exercise a) of None \<Rightarrow> 0 | Some c \<Rightarrow> c) + reps_counted a)
       exercise_counts"

definition analyze_workout_session :: "pose list \<Rightarrow> real \<Rightarrow> nat \<Rightarrow> py_error + session_result" where
  "analyze_workout_session poses video_duration frame_total =
     (if poses = [] then Inr (ErrorResult ''No frames extracted from video'')
      else
        (let timestamps = map (\<lambda>i. real i * (video_duration / real (length poses)))
                            [0..<length poses];
             valid_poses = filter (\<lambda>p. p \<noteq> None) poses
         in if length valid_poses < 10 then
              Inr (ErrorResult ''Insufficient pose data for analysis'')
            else
              (case segment_workout_into_exercises poses timestamps of Inl e \<Rightarrow> Inl e
               | Inr segs \<Rightarrow>
                  (let segment_analysis =
                         map analyze_segment (filter (\<lambda>seg. exercise seg \<noteq> ''unknown'') segs);
                       reps_total = sum_list (map reps_counted segment_analysis);
                       exercise_counts = foldl count_exercise [] segment_analysis;
                       exercise_time = sum_list (map an_duration segment_analysis)
                   in Inr (Report
                       \<lparr>session_summary =
                          \<lparr>total_duration = video_duration,
                           total_exercise_time = exercise_time,
                           rest_time = video_duration - exercise_time,
                           total_reps = reps_total,
                           exercises_performed = map fst exercise_counts,
                           exercise_breakdown = exercise_counts\<rparr>,
                        detailed_analysis = segment_analysis,
                        video_stats =
                          \<lparr>total_frames = frame_total,
                           analyzed_frames = length poses,
                           pose_detection_rate =
                             real (length valid_poses) / real (length poses)\<rparr>\<rparr>)))))"

section \<open>Notions used in the statements\<close>

text \<open>The valid frames of a sequence, as \<open>analyze_workout_session\<close> selects them.\<close>

definition valid_poses :: "pose list \<Rightarrow> pose list" where
  "valid_poses poses = filter (\<lambda>p. p \<noteq> None) poses"

text \<open>The landmarks that the repetition counter reads for an exercise.\<close>

definition required_landmarks :: "string \<Rightarrow> string list" where
  "required_landmarks exercise_type =
     (if exercise_type = ''squat'' then [''left_hip'', ''right_hip'', ''left_knee'', ''right_knee'']
      else if exercise_type = ''pushup'' then [''left_shoulder'', ''left_wrist'']
      else [])"

text \<open>A valid frame in which every required landmark of the exercise is present.\<close>

definition evaluable :: "string \<Rightarrow> pose \<Rightarrow> bool" where
  "evaluable exercise_type p =
     (case p of None \<Rightarrow> False
      | Some d \<Rightarrow> list_all (\<lambda>k. map_of d k \<noteq> None) (required_landmarks exercise_type))"

text \<open>
  The mean hip height and the mean knee height of a frame, as exact numbers. A standing
  frame has the hips above the knees by more than the exit margin 0.15 (a smaller \<open>y\<close>
  is higher on screen); a deep frame has the hips within the entry margin 0.05 of the
  knees.
\<close>

definition mean_heights :: "landmarks \<Rightarrow> (real \<times> real) option" where
  "mean_heights d =
     (case map_of d ''left_hip'' of None \<Rightarrow> None | Some left_hip \<Rightarrow>
     (case map_of d ''right_hip'' of None \<Rightarrow> None | Some right_hip \<Rightarrow>
     (case map_of d ''left_knee'' of None \<Rightarrow> None | Some left_knee \<Rightarrow>
     (case map_of d ''right_knee'' of None \<Rightarrow> None | Some right_knee \<Rightarrow>
        Some ((lm_y left_hip + lm_y right_hip) / 2, (lm_y left_knee + lm_y right_knee) / 2)))))"

definition squat_standing :: "pose \<Rightarrow> bool" where
  "squat_standing p =
     (case p of None \<Rightarrow> False
      | Some d \<Rightarrow>
         (case mean_heights d of None \<Rightarrow> False
          | Some (hip_y, knee_y) \<Rightarrow> hip_y < knee_y - 0.15))"

definition squat_deep :: "pose \<Rightarrow> bool" where
  "squat_deep p =
     (case p of None \<Rightarrow> False
      | Some d \<Rightarrow>
         (case mean_heights d of None \<Rightarrow> False
          | Some (hip_y, knee_y) \<Rightarrow> \<bar>hip_y - knee_y\<bar> < 0.05))"

text \<open>
  The same two conditions with room for rounding: the hip and knee heights of the frame
  lie between \<open>-1\<close> and \<open>2\<close>, and the margin is met with \<open>10 ^ -12\<close> to spare.
\<close>

definition rounding_allowance :: real where
  "rounding_allowance = 1 / 10 ^ 12"

definition heights_in_range :: "landmarks \<Rightarrow> bool" where
  "heights_in_range d =
     list_all (\<lambda>k. case map_of d k of None \<Rightarrow> False | Some l \<Rightarrow> - 1 \<le> lm_y l \<and> lm_y l \<le> 2)
       [''left_hip'', ''right_hip'', ''left_knee'', ''right_knee'']"

definition clearly_standing :: "pose \<Rightarrow> bool" where
  "clearly_standing p =
     (case p of None \<Rightarrow> False
      | Some d \<Rightarrow>
         heights_in_range d \<and>
         (case mean_heights d of None \<Rightarrow> False
          | Some (hip_y, knee_y) \<Rightarrow> hip_y < knee_y - 0.15 - rounding_allowance))"

definition clearly_deep :: "pose \<Rightarrow> bool" where
  "clearly_deep p =
     (case p of None \<Rightarrow> False
      | Some d \<Rightarrow>
         heights_in_range d \<and>
         (case mean_heights d of None \<Rightarrow> False
          | Some (hip_y, knee_y) \<Rightarrow> \<bar>hip_y - knee_y\<bar> < 0.05 - rounding_allowance))"

definition has_nose :: "pose \<Rightarrow> bool" where
  "has_nose p = (case p of None \<Rightarrow> False | Some d \<Rightarrow> map_of d ''nose'' \<noteq> None)"

subsection \<open>Sample frames\<close>

definition hips_knees :: "real \<Rightarrow> real \<Rightarrow> pose" where
  "hips_knees hip_y knee_y =
     Some [(''left_hip'', (0.4, hip_y, 1)), (''right_hip'', (0.6, hip_y, 1)),
           (''left_knee'', (0.4, knee_y, 1)), (''right_knee'', (0.6, knee_y, 1))]"

definition shoulders_only :: pose where
  "shoulders_only =
     Some [(''left_shoulder'', (0.4, 0.3, 1)), (''right_shoulder'', (0.6, 0.3, 1))]"

definition nose_at :: "real \<Rightarrow> real \<Rightarrow> pose" where
  "nose_at x y = Some [(''nose'', (x, y, 1))]"

text \<open>
  Shoulders level with the hips, knees lower, and the left wrist far below the
  shoulders.
\<close>

definition low_wrist_frame :: pose where
  "low_wrist_frame =
     Some [(''left_shoulder'', (0.4, 0.5, 1)), (''right_shoulder'', (0.6, 0.5, 1)),
           (''left_hip'', (0.4, 0.5, 1)), (''right_hip'', (0.6, 0.5, 1)),
           (''left_knee'', (0.4, 0.8, 1)), (''right_knee'', (0.6, 0.8, 1)),
           (''left_wrist'', (0.3, 0.9, 1))]"

text \<open>
  A squat cycle at the exit threshold: the standing frames have the hips at the double
  written \<open>0.85\<close> and the knees at \<open>1.0\<close>, the deep frames have both at \<open>1.0\<close>.
\<close>

definition boundary_standing :: pose where
  "boundary_standing = hips_knees (to_double 0.85) 1"

definition boundary_cycle :: "pose list" where
  "boundary_cycle =
     [boundary_standing, boundary_standing, boundary_standing, boundary_standing,
      boundary_standing,
      hips_knees 1 1, hips_knees 1 1, hips_knees 1 1, hips_knees 1 1, hips_knees 1 1,
      boundary_standing, boundary_standing, boundary_standing, boundary_standing,
      boundary_standing]"

text \<open>Ten frames: two valid frames with both shoulders, then eight missing frames.\<close>

definition early_pair_frames :: "pose list" where
  "early_pair_frames =
     [shoulders_only, shoulders_only, None, None, None, None, None, None, None, None]"

subsection \<open>Invariant of the segment loop\<close>


text \<open>The accumulator of frame \<open>i\<close> starts at \<open>segment_start\<close> and ends just before \<open>i\<close>.\<close>

definition seg_idx :: "nat \<Rightarrow> seg_state \<Rightarrow> bool" where
  "seg_idx i st \<longleftrightarrow> segment_start st + length (segment_poses st) = i"


text \<open>Six frames without a pose.\<close>

definition six_missing :: "pose list" where
  "six_missing = [None, None, None, None, None, None]"

text \<open>
  Ten frames of a squat posture (hips well below the shoulders, knees just below the
  hips) followed by six frames without a pose, and one timestamp per second for them.
\<close>

definition squat_frame :: pose where
  "squat_frame =
     Some [(''left_shoulder'', (0.4, 0.3, 1)), (''right_shoulder'', (0.6, 0.3, 1)),
           (''left_hip'', (0.4, 0.6, 1)), (''right_hip'', (0.6, 0.6, 1)),
           (''left_knee'', (0.4, 0.65, 1)), (''right_knee'', (0.6, 0.65, 1))]"



section \<open>Exercise classifier: the label set\<close>

text \<open>
  Claim C1 says that the classifier returns a member of the closed label set for every
  frame. On a frame that has all six torso landmarks with shoulders and hips at the same
  height, and a left wrist far from shoulder height, the wrist branch is entered and
  left without a \<open>return\<close>: the function returns \<open>None\<close>, which is no label.
\<close>

theorem classify_returns_none:
  "classify_exercise_from_pose low_wrist_frame = PyNone \<and>
   classify_exercise_from_pose low_wrist_frame \<notin> exercise_labels"
  by (simp add: low_wrist_frame_def classify_exercise_from_pose_def classify_body_def
        lm_y_def exercise_labels_def)

section \<open>Repetition counter: bounds\<close>

lemma rep_step_bound:
  "2 * fst (rep_step ex st p) + of_bool (snd (rep_step ex st p))
     \<le> 2 * fst st + of_bool (snd st) + (of_bool (evaluable ex p) :: int)"
  by (auto simp: rep_step_def Let_def evaluable_def required_landmarks_def
        squat_heights_def pushup_heights_def split: option.splits prod.splits)

lemma rep_step_ge: "fst st \<le> fst (rep_step ex st p)"
  by (simp add: rep_step_def Let_def split: option.splits prod.splits)

lemma rep_fold_ge: "fst st \<le> fst (foldl (rep_step ex) st ps)"
proof (induction ps arbitrary: st)
  case Nil
  show ?case by simp
next
  case (Cons p ps)
  have "fst st \<le> fst (rep_step ex st p)" by (rule rep_step_ge)
  also have "\<dots> \<le> fst (foldl (rep_step ex) (rep_step ex st p) ps)" by (rule Cons.IH)
  finally show ?case by simp
qed

text \<open>
  Twice the counter, plus one while a repetition is open, never grows faster than the
  number of frames the state machine could evaluate.
\<close>

lemma rep_fold_bound:
  "2 * fst (foldl (rep_step ex) st ps) + of_bool (snd (foldl (rep_step ex) st ps))
     \<le> 2 * fst st + of_bool (snd st) + int (length (filter (evaluable ex) ps))"
proof (induction ps arbitrary: st)
  case Nil
  show ?case by simp
next
  case (Cons p ps)
  have "2 * fst (foldl (rep_step ex) (rep_step ex st p) ps)
          + of_bool (snd (foldl (rep_step ex) (rep_step ex st p) ps))
        \<le> 2 * fst (rep_step ex st p) + of_bool (snd (rep_step ex st p))
          + int (length (filter (evaluable ex) ps))"
    by (rule Cons.IH)
  also have "\<dots> \<le> 2 * fst st + of_bool (snd st) + of_bool (evaluable ex p)
          + int (length (filter (evaluable ex) ps))"
    using rep_step_bound [of ex st p] by simp
  finally have "2 * fst (foldl (rep_step ex) (rep_step ex st p) ps)
          + of_bool (snd (foldl (rep_step ex) (rep_step ex st p) ps))
        \<le> 2 * fst st + of_bool (snd st) + of_bool (evaluable ex p)
          + int (length (filter (evaluable ex) ps))" .
  moreover have "int (length (filter (evaluable ex) (p # ps)))
        = of_bool (evaluable ex p) + int (length (filter (evaluable ex) ps))"
    by simp
  ultimately show ?case by (simp only: foldl_Cons)
qed

lemma count_reps_twice:
  "2 * count_reps_in_sequence poses ex \<le> int (length (filter (evaluable ex) poses))"
proof (cases "ex = ''unknown'' \<or> poses = []")
  case True
  then show ?thesis by (auto simp: count_reps_in_sequence_def)
next
  case False
  have "2 * fst (foldl (rep_step ex) (0, False) poses)
      \<le> 2 * fst (foldl (rep_step ex) (0, False) poses)
          + of_bool (snd (foldl (rep_step ex) (0, False) poses))" by simp
  also have "\<dots> \<le> int (length (filter (evaluable ex) poses))"
    using rep_fold_bound [of ex "(0, False)" poses] by simp
  finally show ?thesis using False by (simp add: count_reps_in_sequence_def)
qed

lemma count_reps_nonneg: "0 \<le> count_reps_in_sequence poses ex"
  using rep_fold_ge [of "(0, False)" ex poses] by (simp add: count_reps_in_sequence_def)

lemma evaluable_valid: "length (filter (evaluable ex) poses) \<le> length (valid_poses poses)"
proof -
  have "filter (evaluable ex) poses = filter (evaluable ex) (valid_poses poses)"
    unfolding valid_poses_def filter_filter
    by (rule filter_cong) (auto simp: evaluable_def split: option.splits)
  then show ?thesis by (metis length_filter_le)
qed

text \<open>
  Claim C6: the repetition count is a non-negative integer for every pose sequence and
  every exercise label, and it is 0 whenever the sequence has fewer than 2 valid
  (non-\<open>None\<close>) frames.
\<close>

theorem count_reps_nonneg_and_zero:
  "0 \<le> count_reps_in_sequence poses ex \<and>
   (length (valid_poses poses) < 2 \<longrightarrow> count_reps_in_sequence poses ex = 0)"
  using count_reps_nonneg [of poses ex] count_reps_twice [of poses ex]
    evaluable_valid [of ex poses]
  by linarith

theorem count_reps_nonneg_and_zero_witness:
  "0 \<le> count_reps_in_sequence [None, hips_knees 0.5 0.52, None] ''squat'' \<and>
   length (valid_poses [None, hips_knees 0.5 0.52, None]) < 2 \<and>
   count_reps_in_sequence [None, hips_knees 0.5 0.52, None] ''squat'' = 0"
  using count_reps_nonneg_and_zero [of "[None, hips_knees 0.5 0.52, None]" "''squat''"]
  by (simp add: valid_poses_def hips_knees_def)

text \<open>
  Claim C10: the repetition count is at most \<open>floor (v / 2)\<close>, where \<open>v\<close> is the number
  of valid frames of the sequence in which all landmarks required for the exercise are
  present: a counted repetition takes one such frame to open and a later one to close.
\<close>

theorem count_reps_le_half:
  "count_reps_in_sequence poses ex \<le> int (length (filter (evaluable ex) poses) div 2)"
  using count_reps_twice [of poses ex] by linarith

theorem count_reps_le_half_witness:
  "count_reps_in_sequence [hips_knees 0.3 0.6, hips_knees 0.6 0.6, hips_knees 0.3 0.6] ''squat''
     \<le> int (length (filter (evaluable ''squat'')
           [hips_knees 0.3 0.6, hips_knees 0.6 0.6, hips_knees 0.3 0.6]) div 2)"
  using count_reps_le_half
    [of "[hips_knees 0.3 0.6, hips_knees 0.6 0.6, hips_knees 0.3 0.6]" "''squat''"]
  by simp

section \<open>Repetition counter: rounding to double precision\<close>

text \<open>
  Rounding to the nearest integer is off by at most one half, so rounding to a double
  is off by at most half a unit in the last place; a number of magnitude at most 4 moves
  by at most \<open>2 ^ -51\<close>.
\<close>

lemma round_even_error: "\<bar>of_int (round_even y) - y\<bar> \<le> 1 / 2"
proof -
  have "of_int \<lfloor>y\<rfloor> \<le> y" and "y < of_int \<lfloor>y\<rfloor> + 1" by linarith+
  then show ?thesis by (auto simp: round_even_def Let_def)
qed

lemma round_even_of_int: "round_even (of_int k) = k"
  by (simp add: round_even_def)

lemma to_double_scaled:
  assumes n: "n \<le> 1074" and lo: "2 ^ 52 \<le> \<bar>x\<bar> * 2 ^ n" and hi: "\<bar>x\<bar> * 2 ^ n < 2 ^ 53"
  shows "to_double x = of_int (round_even (x * 2 ^ n)) / 2 ^ n"
proof -
  from lo have x0: "x \<noteq> 0" by auto
  then have pos: "0 < \<bar>x\<bar>" by simp
  have p: "(2::real) powr (of_int (52 - int n)) = 2 ^ 52 / 2 ^ n"
    by (simp add: powr_diff powr_realpow)
  have p1: "(2::real) powr (of_int (52 - int n + 1)) = 2 ^ 53 / 2 ^ n"
    by (simp add: powr_diff powr_realpow powr_add)
  from lo have "2 ^ 52 / 2 ^ n \<le> \<bar>x\<bar>" by (simp add: field_simps)
  moreover from hi have "\<bar>x\<bar> < 2 ^ 53 / 2 ^ n" by (simp add: field_simps)
  ultimately have "\<lfloor>log 2 \<bar>x\<bar>\<rfloor> = 52 - int n"
    using floor_log_eq_powr_iff [of "\<bar>x\<bar>" 2 "52 - int n"] pos p p1 by simp
  with n have e: "double_exponent x = 52 - int n" by (simp add: double_exponent_def)
  have u: "(2::real) powr (- real n) = 1 / 2 ^ n"
    by (simp add: powr_minus powr_realpow field_simps)
  show ?thesis using x0 by (simp add: to_double_def e u)
qed

lemma to_double_error:
  assumes "\<bar>x\<bar> \<le> 4"
  shows "\<bar>to_double x - x\<bar> \<le> 1 / 2 ^ 51"
proof (cases "x = 0")
  case True
  then show ?thesis by (simp add: to_double_def)
next
  case False
  define u where "u = (2::real) powr (of_int (double_exponent x) - 52)"
  have upos: "0 < u" by (simp add: u_def)
  from False assms have "log 2 \<bar>x\<bar> \<le> log 2 4" by simp
  also have "log 2 4 = (2::real)" using log_pow_cancel [of 2 2] by simp
  finally have "\<lfloor>log 2 \<bar>x\<bar>\<rfloor> \<le> 2" by (simp add: floor_le_iff)
  then have "double_exponent x \<le> 2" by (simp add: double_exponent_def)
  then have "of_int (double_exponent x) - 52 \<le> (- 50 :: real)" by simp
  then have "u \<le> 2 powr (- 50)" unfolding u_def by (rule powr_mono) simp
  also have "(2::real) powr (- 50) = 1 / 2 ^ 50" by (simp add: powr_minus field_simps)
  finally have ule: "u \<le> 1 / 2 ^ 50" .
  have "to_double x - x = (of_int (round_even (x / u)) - x / u) * u"
    using False upos by (simp add: to_double_def u_def field_simps)
  then have "\<bar>to_double x - x\<bar> = \<bar>of_int (round_even (x / u)) - x / u\<bar> * u"
    using upos by (simp add: abs_mult)
  also have "\<dots> \<le> (1 / 2) * u"
    using round_even_error [of "x / u"] upos by (simp add: mult_right_mono)
  also have "\<dots> \<le> 1 / 2 ^ 51" using ule by simp
  finally show ?thesis .
qed

subsection \<open>The doubles of the boundary cycle\<close>

text \<open>
  The doubles written \<open>0.85\<close>, \<open>0.15\<close> and \<open>0.05\<close>, and the values that the counter
  computes on the frames of \<open>boundary_cycle\<close>: the exit threshold \<open>1.0 - 0.15\<close> rounds
  to the double written \<open>0.85\<close>.
\<close>

lemma double_17_20: "to_double (17 / 20) = 7656119366529843 / 9007199254740992"
  using to_double_scaled [of 53 "17 / 20"] by (simp add: round_even_def)

lemma double_3_20: "to_double (3 / 20) = 5404319552844595 / 36028797018963968"
  using to_double_scaled [of 55 "3 / 20"] by (simp add: round_even_def)

lemma double_1_20: "to_double (1 / 20) = 3602879701896397 / 72057594037927936"
  using to_double_scaled [of 57 "1 / 20"] by (simp add: round_even_def)

lemma double_1: "to_double 1 = 1"
  using to_double_scaled [of 52 1] round_even_of_int [of "2 ^ 52"] by simp

lemma double_2: "to_double 2 = 2"
  using to_double_scaled [of 51 2] round_even_of_int [of "2 ^ 52"] by simp

lemma double_hip_sum:
  "to_double (7656119366529843 / 4503599627370496) = 7656119366529843 / 4503599627370496"
  using to_double_scaled [of 52 "7656119366529843 / 4503599627370496"]
    round_even_of_int [of 7656119366529843] by simp

lemma double_hip:
  "to_double (7656119366529843 / 9007199254740992) = 7656119366529843 / 9007199254740992"
  using to_double_scaled [of 53 "7656119366529843 / 9007199254740992"]
    round_even_of_int [of 7656119366529843] by simp

lemma exit_threshold:
  "to_double (30624477466119373 / 36028797018963968) = 7656119366529843 / 9007199254740992"
  using to_double_scaled [of 53 "30624477466119373 / 36028797018963968"]
  by (simp add: round_even_def)

lemma entry_threshold:
  "to_double (68454714336031539 / 72057594037927936) = 4278419646001971 / 4503599627370496"
  using to_double_scaled [of 53 "68454714336031539 / 72057594037927936"]
  by (simp add: round_even_def)

lemmas double_values = double_17_20 double_3_20 double_1_20 double_1 double_2 double_hip_sum
  double_hip exit_threshold entry_threshold

lemma boundary_step: "rep_step ''squat'' st boundary_standing = st"
  by (simp add: rep_step_def Let_def boundary_standing_def hips_knees_def squat_heights_def
       lm_y_def fl_add_def fl_div_def fl_sub_def double_values)

lemma deep_boundary_step: "rep_step ''squat'' (n, b) (hips_knees 1 1) = (n, True)"
  by (simp add: rep_step_def Let_def hips_knees_def squat_heights_def
       lm_y_def fl_add_def fl_div_def fl_sub_def double_values)

lemma boundary_is_standing: "squat_standing boundary_standing"
  by (simp add: squat_standing_def boundary_standing_def hips_knees_def mean_heights_def
       lm_y_def double_17_20)

lemma deep_is_deep: "squat_deep (hips_knees 1 1)"
  by (simp add: squat_deep_def hips_knees_def mean_heights_def lm_y_def)

lemma boundary_count: "count_reps_in_sequence boundary_cycle ''squat'' = 0"
  by (simp add: count_reps_in_sequence_def boundary_cycle_def boundary_step deep_boundary_step)

section \<open>Repetition counter: one squat cycle\<close>

text \<open>
  Claim C7 says that 5 standing frames (hip height below knee height by more than the
  exit margin 0.15), then 5 deep frames (hip height within the entry margin 0.05 of the
  knee height), then 5 standing frames give a repetition count of exactly 1. With the
  hips at the double written \<open>0.85\<close> and the knees at \<open>1.0\<close> a frame is standing, since
  that double is smaller than 0.85; but Python computes the exit threshold
  \<open>1.0 - 0.15\<close> as that same double, the test \<open>hip_y < knee_y - 0.15\<close> fails, the
  repetition opened by the deep frames is never closed, and the count is 0.
\<close>

theorem squat_boundary_counterexample:
  "squat_standing boundary_standing \<and> squat_deep (hips_knees 1 1) \<and>
   count_reps_in_sequence boundary_cycle ''squat'' = 0"
  using boundary_is_standing deep_is_deep boundary_count by (intro conjI)

subsection \<open>Frames that meet the margins with room for rounding\<close>

text \<open>
  A mean of two heights between \<open>-1\<close> and \<open>2\<close> is computed to within \<open>3 / 2 ^ 52\<close> and a
  threshold to within \<open>7 / 2 ^ 52\<close>; a test whose two sides differ by more than
  \<open>rounding_allowance\<close> in exact arithmetic therefore has the same outcome in double
  precision.
\<close>

lemma halved_error:
  fixes e :: real
  assumes "\<bar>s - x\<bar> \<le> e" and "\<bar>t - s / 2\<bar> \<le> e"
  shows "\<bar>t - x / 2\<bar> \<le> 3 * e / 2"
  using assms by linarith

lemma difference_error:
  fixes e :: real
  assumes "\<bar>k' - k\<bar> \<le> 3 * e" and "\<bar>c' - c\<bar> \<le> 2 * e" and "\<bar>t - (k' - c')\<bar> \<le> 2 * e"
  shows "\<bar>t - (k - c)\<bar> \<le> 7 * e"
  using assms by linarith

lemma decided_less:
  fixes e :: real
  assumes "\<bar>h' - h\<bar> \<le> 3 * e" and "\<bar>t' - t\<bar> \<le> 7 * e" and "10 * e \<le> r" and "h < t - r"
  shows "h' < t'"
  using assms by linarith

lemma decided_greater:
  fixes e :: real
  assumes "\<bar>h' - h\<bar> \<le> 3 * e" and "\<bar>t' - t\<bar> \<le> 7 * e" and "10 * e \<le> r" and "t < h - r"
  shows "t' < h'"
  using assms by linarith

lemma allowance_covers: "10 * (1 / 2 ^ 52) \<le> rounding_allowance"
  by (simp add: rounding_allowance_def)

lemma mean_close:
  assumes "- 1 \<le> a" and "a \<le> 2" and "- 1 \<le> b" and "b \<le> 2"
  shows "\<bar>fl_div (fl_add a b) 2 - (a + b) / 2\<bar> \<le> 3 / 2 ^ 52"
proof -
  from assms have "\<bar>a + b\<bar> \<le> 4" by simp
  then have e1: "\<bar>to_double (a + b) - (a + b)\<bar> \<le> 1 / 2 ^ 51" by (rule to_double_error)
  with assms have "\<bar>to_double (a + b) / 2\<bar> \<le> 4" unfolding abs_le_iff by simp
  then have e2: "\<bar>to_double (to_double (a + b) / 2) - to_double (a + b) / 2\<bar> \<le> 1 / 2 ^ 51"
    by (rule to_double_error)
  from halved_error [OF e1 e2] show ?thesis by (simp add: fl_add_def fl_div_def)
qed

lemma threshold_close:
  assumes "- 1 \<le> k" and "k \<le> 2" and "\<bar>k' - k\<bar> \<le> 3 / 2 ^ 52" and "0 \<le> c" and "c \<le> 1"
  shows "\<bar>fl_sub k' (to_double c) - (k - c)\<bar> \<le> 7 / 2 ^ 52"
proof -
  from assms have "\<bar>c\<bar> \<le> 4" by simp
  then have e1: "\<bar>to_double c - c\<bar> \<le> 1 / 2 ^ 51" by (rule to_double_error)
  with assms have "\<bar>k' - to_double c\<bar> \<le> 4" unfolding abs_le_iff by simp
  then have e2: "\<bar>to_double (k' - to_double c) - (k' - to_double c)\<bar> \<le> 1 / 2 ^ 51"
    by (rule to_double_error)
  from e1 have e1': "\<bar>to_double c - c\<bar> \<le> 2 * (1 / 2 ^ 52)" by simp
  from e2 have e2': "\<bar>to_double (k' - to_double c) - (k' - to_double c)\<bar> \<le> 2 * (1 / 2 ^ 52)" by simp
  from assms(3) have k: "\<bar>k' - k\<bar> \<le> 3 * (1 / 2 ^ 52)" by simp
  from difference_error [OF k e1' e2'] show ?thesis by (simp add: fl_sub_def)
qed

lemma squat_heights_close:
  assumes "heights_in_range d" and "mean_heights d = Some (hip, knee)"
  shows "\<exists>hip' knee'. squat_heights d = Some (hip', knee') \<and>
     \<bar>hip' - hip\<bar> \<le> 3 / 2 ^ 52 \<and>
     \<bar>fl_sub knee' (to_double 0.05) - (knee - 0.05)\<bar> \<le> 7 / 2 ^ 52 \<and>
     \<bar>fl_sub knee' (to_double 0.15) - (knee - 0.15)\<bar> \<le> 7 / 2 ^ 52"
proof -
  from assms(1) obtain lh rh lk rk where
    l: "map_of d ''left_hip'' = Some lh" "map_of d ''right_hip'' = Some rh"
       "map_of d ''left_knee'' = Some lk" "map_of d ''right_knee'' = Some rk"
    and r: "- 1 \<le> lm_y lh" "lm_y lh \<le> 2" "- 1 \<le> lm_y rh" "lm_y rh \<le> 2"
       "- 1 \<le> lm_y lk" "lm_y lk \<le> 2" "- 1 \<le> lm_y rk" "lm_y rk \<le> 2"
    by (auto simp: heights_in_range_def split: option.splits)
  from assms(2) l have m: "hip = (lm_y lh + lm_y rh) / 2" "knee = (lm_y lk + lm_y rk) / 2"
    by (simp_all add: mean_heights_def)
  define hip' where "hip' = fl_div (fl_add (lm_y lh) (lm_y rh)) 2"
  define knee' where "knee' = fl_div (fl_add (lm_y lk) (lm_y rk)) 2"
  have s: "squat_heights d = Some (hip', knee')"
    by (simp add: squat_heights_def l hip'_def knee'_def)
  have h: "\<bar>hip' - hip\<bar> \<le> 3 / 2 ^ 52"
    unfolding hip'_def m by (rule mean_close) (rule r)+
  have k: "\<bar>knee' - knee\<bar> \<le> 3 / 2 ^ 52"
    unfolding knee'_def m by (rule mean_close) (rule r)+
  from r m have kr: "- 1 \<le> knee" "knee \<le> 2" by simp_all
  have t05: "\<bar>fl_sub knee' (to_double 0.05) - (knee - 0.05)\<bar> \<le> 7 / 2 ^ 52"
    by (rule threshold_close [OF kr k]) simp_all
  have t15: "\<bar>fl_sub knee' (to_double 0.15) - (knee - 0.15)\<bar> \<le> 7 / 2 ^ 52"
    by (rule threshold_close [OF kr k]) simp_all
  from s h t05 t15 show ?thesis by blast
qed

lemma heights_in_range_nonempty: "heights_in_range d \<Longrightarrow> d \<noteq> []"
  by (auto simp: heights_in_range_def)

lemma clear_standing_step:
  assumes "clearly_standing p"
  shows "rep_step ''squat'' (n, b) p = (if b then (n + 1, False) else (n, False))"
proof -
  from assms obtain d hip knee where p: "p = Some d" and rng: "heights_in_range d"
    and m: "mean_heights d = Some (hip, knee)"
    and st: "hip < knee - 0.15 - rounding_allowance"
    by (auto simp: clearly_standing_def split: option.splits)
  from squat_heights_close [OF rng m] obtain hip' knee' where
    s: "squat_heights d = Some (hip', knee')" and h: "\<bar>hip' - hip\<bar> \<le> 3 / 2 ^ 52"
    and t05: "\<bar>fl_sub knee' (to_double 0.05) - (knee - 0.05)\<bar> \<le> 7 / 2 ^ 52"
    and t15: "\<bar>fl_sub knee' (to_double 0.15) - (knee - 0.15)\<bar> \<le> 7 / 2 ^ 52" by blast
  from h have h': "\<bar>hip' - hip\<bar> \<le> 3 * (1 / 2 ^ 52)" by simp
  from t05 have t05': "\<bar>fl_sub knee' (to_double 0.05) - (knee - 0.05)\<bar> \<le> 7 * (1 / 2 ^ 52)"
    by simp
  from t15 have t15': "\<bar>fl_sub knee' (to_double 0.15) - (knee - 0.15)\<bar> \<le> 7 * (1 / 2 ^ 52)"
    by simp
  from st have st05: "hip < knee - 0.05 - rounding_allowance" by simp
  have "hip' < fl_sub knee' (to_double 0.05)"
    by (rule decided_less [OF h' t05' allowance_covers st05])
  then have no_entry: "\<not> hip' > fl_sub knee' (to_double 0.05)" by simp
  have exit: "hip' < fl_sub knee' (to_double 0.15)"
    by (rule decided_less [OF h' t15' allowance_covers st])
  from heights_in_range_nonempty [OF rng] no_entry exit show ?thesis
    by (simp add: rep_step_def Let_def p s)
qed

lemma clear_deep_step:
  assumes "clearly_deep p"
  shows "rep_step ''squat'' (n, b) p = (n, True)"
proof -
  from assms obtain d hip knee where p: "p = Some d" and rng: "heights_in_range d"
    and m: "mean_heights d = Some (hip, knee)"
    and dp: "\<bar>hip - knee\<bar> < 0.05 - rounding_allowance"
    by (auto simp: clearly_deep_def split: option.splits)
  from squat_heights_close [OF rng m] obtain hip' knee' where
    s: "squat_heights d = Some (hip', knee')" and h: "\<bar>hip' - hip\<bar> \<le> 3 / 2 ^ 52"
    and t05: "\<bar>fl_sub knee' (to_double 0.05) - (knee - 0.05)\<bar> \<le> 7 / 2 ^ 52"
    and t15: "\<bar>fl_sub knee' (to_double 0.15) - (knee - 0.15)\<bar> \<le> 7 / 2 ^ 52" by blast
  from h have h': "\<bar>hip' - hip\<bar> \<le> 3 * (1 / 2 ^ 52)" by simp
  from t05 have t05': "\<bar>fl_sub knee' (to_double 0.05) - (knee - 0.05)\<bar> \<le> 7 * (1 / 2 ^ 52)"
    by simp
  from t15 have t15': "\<bar>fl_sub knee' (to_double 0.15) - (knee - 0.15)\<bar> \<le> 7 * (1 / 2 ^ 52)"
    by simp
  from dp have dp05: "knee - 0.05 < hip - rounding_allowance" unfolding abs_less_iff by simp
  from dp have dp15: "knee - 0.15 < hip - rounding_allowance" unfolding abs_less_iff by simp
  have entry: "hip' > fl_sub knee' (to_double 0.05)"
    by (rule decided_greater [OF h' t05' allowance_covers dp05])
  have "fl_sub knee' (to_double 0.15) < hip'"
    by (rule decided_greater [OF h' t15' allowance_covers dp15])
  then have no_exit: "\<not> hip' < fl_sub knee' (to_double 0.15)" by simp
  from heights_in_range_nonempty [OF rng] entry no_exit show ?thesis
    by (simp add: rep_step_def Let_def p s)
qed

lemma clear_standing_fold:
  "\<forall>p\<in>set ps. clearly_standing p \<Longrightarrow>
   foldl (rep_step ''squat'') (n, b) ps = (if b \<and> ps \<noteq> [] then (n + 1, False) else (n, b \<and> ps = []))"
  by (induction ps arbitrary: n b) (auto simp: clear_standing_step)

lemma clear_deep_fold:
  "\<forall>p\<in>set ps. clearly_deep p \<Longrightarrow>
   foldl (rep_step ''squat'') (n, b) ps = (n, b \<or> ps \<noteq> [])"
  by (induction ps arbitrary: n b) (auto simp: clear_deep_step)

text \<open>
  Claim C7 as amended: 5 standing frames, then 5 deep frames, then 5 standing frames
  give a repetition count of exactly 1 for the label \<open>squat\<close>, provided every hip and
  knee height lies between \<open>-1\<close> and \<open>2\<close>, the standing frames have the hip height below
  the knee height by more than \<open>0.15 + 10 ^ -12\<close>, and the deep frames have the hip
  height within \<open>0.05 - 10 ^ -12\<close> of the knee height.
\<close>

theorem one_squat_cycle:
  assumes "length a = 5" and "length b = 5" and "length c = 5"
    and "\<forall>p\<in>set a. clearly_standing p" and "\<forall>p\<in>set b. clearly_deep p"
    and "\<forall>p\<in>set c. clearly_standing p"
  shows "count_reps_in_sequence (a @ b @ c) ''squat'' = 1"
proof -
  from assms(1-3) have ne: "a \<noteq> []" "b \<noteq> []" "c \<noteq> []" by auto
  have "foldl (rep_step ''squat'') (0, False) a = (0, False)"
    using clear_standing_fold [OF assms(4), of 0 False] by simp
  moreover have "foldl (rep_step ''squat'') (0, False) b = (0, True)"
    using clear_deep_fold [OF assms(5), of 0 False] ne by simp
  moreover have "foldl (rep_step ''squat'') (0, True) c = (1, False)"
    using clear_standing_fold [OF assms(6), of 0 True] ne by simp
  ultimately show ?thesis using ne by (simp add: count_reps_in_sequence_def)
qed

theorem one_squat_cycle_witness:
  "count_reps_in_sequence (replicate 5 (hips_knees 0.25 0.5) @ replicate 5 (hips_knees 0.5 0.5)
      @ replicate 5 (hips_knees 0.25 0.5)) ''squat'' = 1"
  by (rule one_squat_cycle)
     (simp_all add: clearly_standing_def clearly_deep_def hips_knees_def mean_heights_def
        heights_in_range_def rounding_allowance_def lm_y_def)

section \<open>Fatigue estimator\<close>

text \<open>
  Claim C8: for every frame sequence and every exercise label the fatigue score lies in
  the closed interval from 0 to 1.
\<close>

theorem fatigue_score_bounded:
  "0 \<le> fatigue_score (detect_fatigue_indicators poses ex) \<and>
   fatigue_score (detect_fatigue_indicators poses ex) \<le> 1"
  by (simp add: detect_fatigue_indicators_def Let_def)

theorem fatigue_score_bounded_witness:
  "0 \<le> fatigue_score (detect_fatigue_indicators early_pair_frames ''squat'') \<and>
   fatigue_score (detect_fatigue_indicators early_pair_frames ''squat'') \<le> 1"
  by (rule fatigue_score_bounded)

lemma upt_1_3: "[1..<3] = [1, 2]"
  by (simp add: upt_rec)

lemma upt_1_4: "[1..<4] = [1, 2, 3]"
  by (simp add: upt_rec)

lemma early_c: "calculate_form_consistency [shoulders_only, shoulders_only, None] ''squat'' = 1"
  by (simp add: calculate_form_consistency_def upt_1_3 List.map_filter_def pair_consistency_def
       shoulders_only_def shoulder_width_def lm_x_def mean_def Let_def)

lemma late_c: "calculate_form_consistency [None, None, None, None] ''squat'' = 0"
  by (simp add: calculate_form_consistency_def upt_1_4 List.map_filter_def pair_consistency_def Let_def)

text \<open>
  Claim C3 says that fewer than 10 valid frames give score 0 and no indicator, however
  many missing frames there are. The guard of \<open>detect_fatigue_indicators\<close> is
  \<open>len(poses) < 10\<close>, which counts missing frames too: ten frames of which only the first
  two are valid pass the guard, the early third is perfectly consistent, the late third
  has no valid pair, and form degradation is reported with score 0.3.
\<close>

theorem fatigue_valid_count_counterexample:
  "length (valid_poses early_pair_frames) < 10 \<and>
   fatigue_score (detect_fatigue_indicators early_pair_frames ''squat'') = 0.3 \<and>
   indicators (detect_fatigue_indicators early_pair_frames ''squat'')
     = [''Form degradation detected'']"
  by (simp add: early_pair_frames_def valid_poses_def detect_fatigue_indicators_def
       Let_def slice_from_def early_c late_c)

text \<open>
  Claim C3 as amended: a frame sequence with fewer than 10 frames in all, missing frames
  included, gets fatigue score 0 and an empty indicator list.
\<close>

theorem fatigue_short_sequence_zero:
  "length poses < 10 \<Longrightarrow>
   fatigue_score (detect_fatigue_indicators poses ex) = 0 \<and>
   indicators (detect_fatigue_indicators poses ex) = []"
  by (simp add: detect_fatigue_indicators_def)

theorem fatigue_short_sequence_zero_witness:
  "fatigue_score (detect_fatigue_indicators [shoulders_only, None, shoulders_only] ''squat'') = 0 \<and>
   indicators (detect_fatigue_indicators [shoulders_only, None, shoulders_only] ''squat'') = []"
  by (rule fatigue_short_sequence_zero) simp

section \<open>Stability and consistency without a usable pair\<close>

lemma map_filter_all_None: "(\<forall>x\<in>set xs. f x = None) \<Longrightarrow> List.map_filter f xs = []"
  by (induction xs) (simp_all add: List.map_filter_simps)

lemma pair_consistency_None: "cur = None \<or> prev = None \<Longrightarrow> pair_consistency cur prev = None"
  by (cases cur; cases prev) (simp_all add: pair_consistency_def)

lemma nose_movement_None:
  assumes "\<not> (has_nose cur \<and> has_nose prev)"
  shows "nose_movement cur prev = None"
proof (cases cur)
  case None
  then show ?thesis by (simp add: nose_movement_def)
next
  case c: (Some c)
  show ?thesis
  proof (cases prev)
    case None
    with c show ?thesis by (simp add: nose_movement_def)
  next
    case p: (Some p)
    have "map_of c ''nose'' = None \<or> map_of p ''nose'' = None"
      using assms c p unfolding has_nose_def
      by (cases "map_of c ''nose''"; cases "map_of p ''nose''") simp_all
    then show ?thesis
    proof
      assume "map_of c ''nose'' = None"
      then show ?thesis by (simp add: nose_movement_def c p)
    next
      assume "map_of p ''nose'' = None"
      then show ?thesis
        by (cases "map_of c ''nose''") (simp_all add: nose_movement_def c p)
    qed
  qed
qed

text \<open>
  Claim C9: the pose stability is exactly 1 for every pose list with fewer than 2
  entries and for every pose list in which no two consecutive valid frames both have the
  nose landmark, whereas the form consistency is 0 when no two consecutive frames are
  both valid.
\<close>

theorem stability_defaults_to_one:
  "(length poses < 2 \<longrightarrow> calculate_pose_stability poses = 1) \<and>
   ((\<forall>i. 0 < i \<and> i < length poses \<longrightarrow> \<not> (has_nose (poses ! i) \<and> has_nose (poses ! (i - 1))))
      \<longrightarrow> calculate_pose_stability poses = 1) \<and>
   ((\<forall>i. 0 < i \<and> i < length poses \<longrightarrow> poses ! i = None \<or> poses ! (i - 1) = None)
      \<longrightarrow> calculate_form_consistency poses ex = 0)"
proof (intro conjI impI)
  assume "length poses < 2"
  then show "calculate_pose_stability poses = 1" by (simp add: calculate_pose_stability_def)
next
  assume h: "\<forall>i. 0 < i \<and> i < length poses \<longrightarrow> \<not> (has_nose (poses ! i) \<and> has_nose (poses ! (i - 1)))"
  have "List.map_filter (\<lambda>i. nose_movement (poses ! i) (poses ! (i - 1))) [1..<length poses] = []"
  proof (rule map_filter_all_None, rule ballI)
    fix i assume "i \<in> set [1..<length poses]"
    then have "0 < i \<and> i < length poses" by auto
    then have "\<not> (has_nose (poses ! i) \<and> has_nose (poses ! (i - 1)))"
      by (rule h [rule_format])
    then show "nose_movement (poses ! i) (poses ! (i - 1)) = None"
      by (rule nose_movement_None)
  qed
  then show "calculate_pose_stability poses = 1" by (simp add: calculate_pose_stability_def)
next
  assume h: "\<forall>i. 0 < i \<and> i < length poses \<longrightarrow> poses ! i = None \<or> poses ! (i - 1) = None"
  have "List.map_filter (\<lambda>i. pair_consistency (poses ! i) (poses ! (i - 1))) [1..<length poses] = []"
  proof (rule map_filter_all_None, rule ballI)
    fix i assume "i \<in> set [1..<length poses]"
    then have "0 < i \<and> i < length poses" by auto
    then have "poses ! i = None \<or> poses ! (i - 1) = None" by (rule h [rule_format])
    then show "pair_consistency (poses ! i) (poses ! (i - 1)) = None"
      by (rule pair_consistency_None)
  qed
  then show "calculate_form_consistency poses ex = 0" by (simp add: calculate_form_consistency_def)
qed

theorem stability_defaults_to_one_witness:
  "calculate_pose_stability [nose_at 0.5 0.5] = 1 \<and>
   calculate_pose_stability [nose_at 0.5 0.5, None, nose_at 0.9 0.9] = 1 \<and>
   calculate_form_consistency [shoulders_only, None, shoulders_only] ''squat'' = 0"
proof -
  have a: "\<forall>i. 0 < i \<and> i < length [nose_at 0.5 0.5, None, nose_at 0.9 0.9] \<longrightarrow>
     \<not> (has_nose ([nose_at 0.5 0.5, None, nose_at 0.9 0.9] ! i) \<and>
        has_nose ([nose_at 0.5 0.5, None, nose_at 0.9 0.9] ! (i - 1)))"
    by (auto simp: has_nose_def nth_Cons split: nat.splits)
  have b: "\<forall>i. 0 < i \<and> i < length [shoulders_only, None, shoulders_only] \<longrightarrow>
     [shoulders_only, None, shoulders_only] ! i = None \<or>
     [shoulders_only, None, shoulders_only] ! (i - 1) = None"
    by (auto simp: nth_Cons split: nat.splits)
  show ?thesis
    using stability_defaults_to_one [of "[nose_at 0.5 0.5]" "''squat''"]
      stability_defaults_to_one [of "[nose_at 0.5 0.5, None, nose_at 0.9 0.9]" "''squat''"]
      stability_defaults_to_one [of "[shoulders_only, None, shoulders_only]" "''squat''"] a b
    by simp
qed

section \<open>Session analysis on a sequence without poses\<close>

text \<open>
  Claim C4 says that a sequence whose frames are all missing yields a report with zero
  totals rather than an error value. \<open>analyze_workout_session\<close> returns the error
  dictionary as soon as fewer than 10 poses are valid, before any segment is built.
\<close>

theorem all_missing_session_counterexample:
  "analyze_workout_session [None, None, None, None, None, None, None, None, None, None] 10 300
     = Inr (ErrorResult ''Insufficient pose data for analysis'')"
  by (simp add: analyze_workout_session_def Let_def)

text \<open>
  Claim C4 as amended: for a sequence whose frames are all missing the session analysis
  does not raise and returns an error value instead of a report, namely
  \<open>No frames extracted from video\<close> for the empty sequence and
  \<open>Insufficient pose data for analysis\<close> otherwise.
\<close>

theorem all_missing_session_error:
  assumes "\<forall>p\<in>set poses. p = None"
  shows "analyze_workout_session poses video_duration frame_total =
     Inr (ErrorResult (if poses = [] then ''No frames extracted from video''
                       else ''Insufficient pose data for analysis''))"
proof -
  from assms have "filter (\<lambda>p. p \<noteq> None) poses = []" by (simp add: filter_empty_conv)
  then show ?thesis by (simp add: analyze_workout_session_def Let_def)
qed

theorem all_missing_session_error_witness:
  "analyze_workout_session [None, None, None] 3 90 =
     Inr (ErrorResult ''Insufficient pose data for analysis'')"
  using all_missing_session_error [of "[None, None, None]" 3 90] by simp

section \<open>Segment builder: the loop never raises\<close>

lemma py_index_nat: "k < length xs \<Longrightarrow> py_index xs (int k) = Inr (xs ! k)"
  by (simp add: py_index_def)

lemma py_index_pred: "0 < i \<Longrightarrow> i \<le> length xs \<Longrightarrow> py_index xs (int i - 1) = Inr (xs ! (i - 1))"
  using py_index_nat [of "i - 1" xs] by (simp add: of_nat_diff)

lemma py_index_last: "xs \<noteq> [] \<Longrightarrow> py_index xs (- 1) = Inr (xs ! (length xs - 1))"
proof -
  assume "xs \<noteq> []"
  then have pos: "Suc 0 \<le> length xs" by (cases xs) simp_all
  then have "nat (int (length xs) + - 1) = length xs - 1" by linarith
  with pos show ?thesis by (simp add: py_index_def)
qed

lemma save_previous_total:
  assumes "i \<le> length ts" and "seg_idx i st"
  shows "\<exists>segs. save_previous ts i st = Inr segs"
proof (cases "current_exercise st")
  case PyNone
  then show ?thesis by (simp add: save_previous_def)
next
  case (Str name)
  show ?thesis
  proof (cases "name \<noteq> [] \<and> length (segment_poses st) > 5")
    case False
    with Str show ?thesis by (auto simp: save_previous_def)
  next
    case True
    with assms have a: "segment_start st < length ts" and b: "0 < i"
      by (auto simp: seg_idx_def)
    from assms(1) b have "py_index ts (int i - 1) = Inr (ts ! (i - 1))"
      by (simp add: py_index_pred)
    with Str True a b show ?thesis
      by (simp add: save_previous_def py_index_nat)
  qed
qed

lemma segment_step_total:
  assumes "i < length ts" and "seg_idx i st"
  shows "\<exists>st'. segment_step ts i p st = Inr st' \<and> seg_idx (Suc i) st'"
proof (cases "classify_exercise_from_pose p \<noteq> current_exercise st")
  case True
  from assms obtain segs where "save_previous ts i st = Inr segs"
    using save_previous_total [of i ts st] by auto
  with True show ?thesis by (simp add: segment_step_def seg_idx_def)
next
  case False
  with assms(2) show ?thesis by (simp add: segment_step_def seg_idx_def)
qed

lemma segment_loop_total:
  assumes "i + length ps \<le> length ts" and "seg_idx i st"
  shows "\<exists>st'. segment_loop ts i ps st = Inr st' \<and> seg_idx (i + length ps) st'"
  using assms
proof (induction ps arbitrary: i st)
  case Nil
  then show ?case by simp
next
  case (Cons p ps)
  from Cons.prems have "i < length ts" by simp
  with Cons.prems(2) obtain st1 where s1: "segment_step ts i p st = Inr st1" "seg_idx (Suc i) st1"
    using segment_step_total by blast
  from Cons.prems(1) have "Suc i + length ps \<le> length ts" by simp
  from Cons.IH [OF this s1(2)] obtain st' where
    "segment_loop ts (Suc i) ps st1 = Inr st'" "seg_idx (Suc i + length ps) st'" by blast
  with s1(1) show ?case by simp
qed

lemma add_final_total:
  assumes "n \<le> length ts" and "seg_idx n st"
  shows "\<exists>segs. add_final ts st = Inr segs"
proof (cases "current_exercise st")
  case PyNone
  then show ?thesis by (simp add: add_final_def)
next
  case (Str name)
  show ?thesis
  proof (cases "name \<noteq> [] \<and> length (segment_poses st) > 5")
    case False
    with Str show ?thesis by (auto simp: add_final_def)
  next
    case True
    with assms have a: "segment_start st < length ts" and b: "ts \<noteq> []"
      by (auto simp: seg_idx_def)
    with Str True show ?thesis
      by (simp add: add_final_def py_index_nat py_index_last)
  qed
qed

lemma seg_idx_init:
  "seg_idx 0 \<lparr>segments = [], current_exercise = PyNone, segment_start = 0, segment_poses = []\<rparr>"
  by (simp add: seg_idx_def)

lemma segment_workout_total:
  assumes "length poses \<le> length timestamps"
  shows "\<exists>segs. segment_workout_into_exercises poses timestamps = Inr segs"
proof -
  from assms have "0 + length poses \<le> length timestamps" by simp
  from segment_loop_total [OF this seg_idx_init] obtain st where
    st: "segment_loop timestamps 0 poses
          \<lparr>segments = [], current_exercise = PyNone, segment_start = 0, segment_poses = []\<rparr> = Inr st"
      "seg_idx (0 + length poses) st" by blast
  from st(2) have "seg_idx (length poses) st" by simp
  from add_final_total [OF assms this] obtain segs where "add_final timestamps st = Inr segs" ..
  with st(1) show ?thesis by (simp add: segment_workout_into_exercises_def)
qed

section \<open>Segment builder: invariant of the loop\<close>










section \<open>Segment builder: the returned segments\<close>




lemma squat_frame_valid: "squat_frame \<noteq> None"
  by (simp add: squat_frame_def)







section \<open>Segment builder: timestamps are not checked\<close>

text \<open>
  Claim C5 says that non-monotonic timestamps make the pipeline raise an
  \<open>InvalidSequenceError\<close>. The code has no such error and never compares two timestamps:
  on six frames with decreasing timestamps the segment builder returns a segment
  of duration \<open>-5\<close>.
\<close>

theorem non_monotonic_counterexample:
  "segment_workout_into_exercises six_missing [5, 4, 3, 2, 1, 0] =
     Inr [\<lparr>exercise = ''unknown'', start_time = 5, end_time = 0, duration = - 5,
           poses_of = six_missing, frame_count = 6\<rparr>]"
  by (simp add: segment_workout_into_exercises_def six_missing_def segment_step_def
       save_previous_def add_final_def classify_exercise_from_pose_def py_index_def)

text \<open>
  Claim C5 as amended: for every pose sequence and every list of timestamps with at
  least one timestamp for each frame, monotonic or not, the segment builder raises no
  error and returns a list of segments.
\<close>

theorem segment_builder_never_raises:
  "length poses \<le> length timestamps \<Longrightarrow>
   \<exists>segs. segment_workout_into_exercises poses timestamps = Inr segs"
  by (rule segment_workout_total)

theorem segment_builder_never_raises_witness:
  "\<exists>segs. segment_workout_into_exercises six_missing [5, 4, 3, 2, 1, 0] = Inr segs"
  by (rule segment_builder_never_raises) (simp add: six_missing_def)

end
